theory Spec2Isabelle
  imports Main "HOL-Library.Word"
begin

unbundle bit_operations_syntax

section \<open>The LS1024A PCIe root-complex driver (pcie-ls1024a.c)\<close>

text \<open>
  The driver is a sequence of calls into the rest of the kernel (regmap, reset, PHY, clock,
  IRQ and device-tree services) whose results steer its control flow.  The embedding keeps
  that shape: every call the driver makes is appended to a history of events together with
  the result the driver consumed, and the result itself is supplied by the rest of the
  kernel, which may answer differently at every point of the history (registers are
  volatile, and any service may fail at any time).
\<close>

subsection \<open>Values, handles and events\<close>

type_synonym u32 = "32 word"

text \<open>
  A C \<open>int\<close> (return codes) is kept as its 32 bits; \<open>ret < 0\<close> is the signed
  comparison \<open>ret <s 0\<close> and \<open>-E\<close> is two's-complement negation.
\<close>

text \<open>
  Pointers returned by kernel services are opaque to the driver.  All it ever does with one
  is test it for \<open>NULL\<close>, test it with \<open>IS_ERR\<close>, read the code with
  \<open>PTR_ERR\<close>, or pass it on.
\<close>

datatype ptr = NULL | Valid | ERR_PTR u32



text \<open>
  The three reset domains, by the names the driver requests them under ("axi", "power",
  "regs"); the handles are the fields \<open>axi_reset\<close>, \<open>power_reset\<close> and
  \<open>regs_reset\<close> of the port context.
\<close>

datatype reset_line = Axi | Power | Regs

datatype call =
    Regmap_read u32
  | Regmap_write u32 u32
  | Regmap_write_bits u32 u32 u32
  | Reset_control_assert reset_line
  | Reset_control_deassert reset_line
  | Phy_init
  | Phy_set_mode
  | Phy_power_on
  | Phy_power_off
  | Phy_exit
  | Clk_prepare_enable
  | Clk_disable_unprepare
  | Devm_kzalloc
  | Of_property_read_u32 string
  | Of_property_value string
  | Syscon_regmap_lookup_by_compatible string
  | Devm_clk_get string
  | Devm_reset_control_get_exclusive reset_line
  | Devm_phy_get string
  | Platform_get_resource_byname string
  | Devm_pci_remap_cfg_resource ptr
  | Platform_set_drvdata
  | Of_find_compatible_node string
  | Of_get_child_by_name string u32
  | Of_node_put
  | Irq_domain_add_linear nat
  | Of_irq_get nat
  | Devm_request_irq u32
  | Dw_pcie_host_init
  | Irq_find_mapping nat
  | Generic_handle_irq u32
  | Usleep_range
  | Dev_err string
  | Dev_dbg string
  | Dev_info string
  | Pr_err string

text \<open>
  What the driver got back: an integer (a return code, a register value, a virtual IRQ
  number), a pointer, or nothing it looks at.
\<close>

datatype rv = RInt u32 | RPtr ptr | RVoid

type_synonym event = "call \<times> rv"

text \<open>
  Everything outside the source file is a parameter: the two build-time constants the
  driver's behaviour depends on, and the answers of the kernel services, each a function
  of the history so far and of the call.
\<close>

record kernel =
  CONFIG_PCI_MSI :: bool
  LINK_WAIT_MAX_RETRIES :: nat
  ret_int :: "event list \<Rightarrow> call \<Rightarrow> u32"
  ret_ptr :: "event list \<Rightarrow> call \<Rightarrow> ptr"

definition call_int :: "kernel \<Rightarrow> call \<Rightarrow> event list \<Rightarrow> u32 \<times> event list" where
  "call_int k c h = (let r = ret_int k h c in (r, h @ [(c, RInt r)]))"

definition call_ptr :: "kernel \<Rightarrow> call \<Rightarrow> event list \<Rightarrow> ptr \<times> event list" where
  "call_ptr k c h = (let p = ret_ptr k h c in (p, h @ [(c, RPtr p)]))"

definition call_void :: "call \<Rightarrow> event list \<Rightarrow> event list" where
  "call_void c h = h @ [(c, RVoid)]"

subsection \<open>Kernel services as the driver uses them\<close>

text \<open>
  \<open>regmap_read\<close> stores the register value through its pointer argument; the driver
  ignores its return code, as it does those of \<open>regmap_write\<close>,
  \<open>regmap_write_bits\<close>, \<open>phy_power_off\<close>, \<open>phy_exit\<close> and
  \<open>generic_handle_irq\<close>.  The register bank is a memory-mapped syscon, whose
  accesses do not fail.
\<close>

definition regmap_read :: "kernel \<Rightarrow> u32 \<Rightarrow> event list \<Rightarrow> u32 \<times> event list" where
  "regmap_read k reg h = call_int k (Regmap_read reg) h"

definition regmap_write :: "u32 \<Rightarrow> u32 \<Rightarrow> event list \<Rightarrow> event list" where
  "regmap_write reg val h = call_void (Regmap_write reg val) h"

definition regmap_write_bits :: "u32 \<Rightarrow> u32 \<Rightarrow> u32 \<Rightarrow> event list \<Rightarrow> event list" where
  "regmap_write_bits reg msk val h = call_void (Regmap_write_bits reg msk val) h"

definition reset_control_assert ::
  "kernel \<Rightarrow> reset_line \<Rightarrow> event list \<Rightarrow> u32 \<times> event list" where
  "reset_control_assert k rc h = call_int k (Reset_control_assert rc) h"

definition reset_control_deassert ::
  "kernel \<Rightarrow> reset_line \<Rightarrow> event list \<Rightarrow> u32 \<times> event list" where
  "reset_control_deassert k rc h = call_int k (Reset_control_deassert rc) h"






definition dev_err :: "string \<Rightarrow> event list \<Rightarrow> event list" where
  "dev_err msg h = call_void (Dev_err msg) h"

definition dev_dbg :: "string \<Rightarrow> event list \<Rightarrow> event list" where
  "dev_dbg msg h = call_void (Dev_dbg msg) h"

definition dev_info :: "string \<Rightarrow> event list \<Rightarrow> event list" where
  "dev_info msg h = call_void (Dev_info msg) h"

definition pr_err :: "string \<Rightarrow> event list \<Rightarrow> event list" where
  "pr_err msg h = call_void (Pr_err msg) h"

definition irq_find_mapping :: "kernel \<Rightarrow> nat \<Rightarrow> event list \<Rightarrow> u32 \<times> event list" where
  "irq_find_mapping k hwirq h = call_int k (Irq_find_mapping hwirq) h"

definition generic_handle_irq :: "u32 \<Rightarrow> event list \<Rightarrow> event list" where
  "generic_handle_irq virq h = call_void (Generic_handle_irq virq) h"

definition ETIMEDOUT :: u32 where "ETIMEDOUT = 110"

text \<open>
  Modelled from the spec: the \<open>BIT(n)\<close> macro of the kernel's bit headers, which is
  not under src/: the word whose only set bit is bit \<open>n\<close> (section 6 of the spec
  names every flag by its bit number).  In C the shift is undefined for \<open>n\<close> at or
  beyond the word size; every use below has \<open>n < 32\<close>.
\<close>

definition BIT :: "nat \<Rightarrow> u32" where
  "BIT n = push_bit n 1"

subsection \<open>Register layout (lines 34 to 77)\<close>

record ls1024a_pcie =
  pci :: ptr
  clk :: ptr
  phy :: ptr
  axi_reset :: ptr
  power_reset :: ptr
  regs_reset :: ptr
  app_regs :: ptr
  irq_domain :: ptr
  port_idx :: u32

definition PCIEx_CFGx :: "u32 \<Rightarrow> u32 \<Rightarrow> u32" where
  "PCIEx_CFGx port reg = (port * 0x20) + (reg * 0x4)"

definition PCIEx_STSx :: "u32 \<Rightarrow> u32 \<Rightarrow> u32" where
  "PCIEx_STSx port reg = 0x40 + (port * 0xc) + (reg * 0x4)"

definition PCIEx_STS3 :: "u32 \<Rightarrow> u32" where
  "PCIEx_STS3 port = 0x58 + (port * 0x4)"

definition PCIEx_INTR_STS :: "u32 \<Rightarrow> u32" where
  "PCIEx_INTR_STS port = 0x100 + (port * 0x10)"

definition PCIEx_INTR_EN :: "u32 \<Rightarrow> u32" where
  "PCIEx_INTR_EN port = 0x104 + (port * 0x10)"

definition CFG0_DEV_TYPE_MASK :: u32 where "CFG0_DEV_TYPE_MASK = 0xF"
definition CFG0_DEV_TYPE_RC :: u32 where "CFG0_DEV_TYPE_RC = 0x4"

definition CFG5_LINK_DOWN_RST :: u32 where "CFG5_LINK_DOWN_RST = BIT 9"
definition CFG5_APP_RDY_L23 :: u32 where "CFG5_APP_RDY_L23 = BIT 2"
definition CFG5_LTSSM_EN :: u32 where "CFG5_LTSSM_EN = BIT 1"
definition CFG5_APP_INIT_RST :: u32 where "CFG5_APP_INIT_RST = BIT 0"

definition STS0_RDLH_LINK_UP :: u32 where "STS0_RDLH_LINK_UP = BIT 16"
definition STS0_XMLH_LINK_UP :: u32 where "STS0_XMLH_LINK_UP = BIT 15"
definition STS0_LINK_REQ_RST_NOT :: u32 where "STS0_LINK_REQ_RST_NOT = BIT 0"

definition PCIE_INTR_MSI :: u32 where "PCIE_INTR_MSI = BIT 12"
definition PCIE_INTR_LINK_AUTO_BW :: u32 where "PCIE_INTR_LINK_AUTO_BW = BIT 11"
definition PCIE_INTR_HP :: u32 where "PCIE_INTR_HP = BIT 10"
definition PCIE_INTR_PME :: u32 where "PCIE_INTR_PME = BIT 9"
definition PCIE_INTR_AER :: u32 where "PCIE_INTR_AER = BIT 8"
definition PCIE_INTR_INTD_DEASSERT :: u32 where "PCIE_INTR_INTD_DEASSERT = BIT 7"
definition PCIE_INTR_INTD_ASSERT :: u32 where "PCIE_INTR_INTD_ASSERT = BIT 6"
definition PCIE_INTR_INTC_DEASSERT :: u32 where "PCIE_INTR_INTC_DEASSERT = BIT 5"
definition PCIE_INTR_INTC_ASSERT :: u32 where "PCIE_INTR_INTC_ASSERT = BIT 4"
definition PCIE_INTR_INTB_DEASSERT :: u32 where "PCIE_INTR_INTB_DEASSERT = BIT 3"
definition PCIE_INTR_INTB_ASSERT :: u32 where "PCIE_INTR_INTB_ASSERT = BIT 2"
definition PCIE_INTR_INTA_DEASSERT :: u32 where "PCIE_INTR_INTA_DEASSERT = BIT 1"
definition PCIE_INTR_INTA_ASSERT :: u32 where "PCIE_INTR_INTA_ASSERT = BIT 0"

definition LS1024A_PCIE_INTC_INTA :: nat where "LS1024A_PCIE_INTC_INTA = 0"
definition LS1024A_PCIE_INTC_INTB :: nat where "LS1024A_PCIE_INTC_INTB = 2"
definition LS1024A_PCIE_INTC_INTC :: nat where "LS1024A_PCIE_INTC_INTC = 4"
definition LS1024A_PCIE_INTC_INTD :: nat where "LS1024A_PCIE_INTC_INTD = 6"
definition LS1024A_PCIE_INTC_MSI :: nat where "LS1024A_PCIE_INTC_MSI = 12"


subsection \<open>Reset sequencing (lines 81 to 118)\<close>

definition ls1024a_reset_assert :: "kernel \<Rightarrow> event list \<Rightarrow> u32 \<times> event list" where
  "ls1024a_reset_assert k h0 =
    (let fail = (\<lambda>res h. (res, dev_err ''Failed to assert resets: %d'' h));
         (res, h) = reset_control_assert k Regs h0
     in if res \<noteq> 0 then fail res h else
     let (res, h) = reset_control_assert k Power h
     in if res \<noteq> 0 then fail res h else
     let (res, h) = reset_control_assert k Axi h
     in if res \<noteq> 0 then fail res h else
     (0, h))"

definition ls1024a_reset_deassert :: "kernel \<Rightarrow> event list \<Rightarrow> u32 \<times> event list" where
  "ls1024a_reset_deassert k h0 =
    (let fail = (\<lambda>res h.
           let h = dev_err ''Failed to deassert resets: %d'' h;
               (_, h) = ls1024a_reset_assert k h
           in (res, h));
         (res, h) = reset_control_deassert k Axi h0
     in if res \<noteq> 0 then fail res h else
     let (res, h) = reset_control_deassert k Power h
     in if res \<noteq> 0 then fail res h else
     let (res, h) = reset_control_deassert k Regs h
     in if res \<noteq> 0 then fail res h else
     (0, h))"

subsection \<open>PHY bring-up (lines 120 to 174)\<close>




subsection \<open>Link control (lines 176 to 230)\<close>

definition ls1024a_pcie_link_up ::
  "kernel \<Rightarrow> ls1024a_pcie \<Rightarrow> event list \<Rightarrow> u32 \<times> event list" where
  "ls1024a_pcie_link_up k pcie h0 =
    (let port = port_idx pcie;
         reg = PCIEx_STSx port 0;
         (val, h) = regmap_read k reg h0
     in if (val AND STS0_RDLH_LINK_UP) = STS0_RDLH_LINK_UP then (1, h)
        else (0, dev_dbg ''No link detected (PCIE%u_STS0: 0x%x).'' h))"

text \<open>
  Modelled from the spec: \<open>dw_pcie_link_up\<close> of the DesignWare core (not under
  src/).  The host-controller framework "calls back into the Link Controller for link-up
  queries": with the \<open>link_up\<close> hook of \<open>dw_pcie_ops\<close> set (line 419), the query
  is the driver's own.
\<close>

definition dw_pcie_link_up ::
  "kernel \<Rightarrow> ls1024a_pcie \<Rightarrow> event list \<Rightarrow> u32 \<times> event list" where
  "dw_pcie_link_up k pcie h = ls1024a_pcie_link_up k pcie h"

text \<open>
  Modelled from the spec: \<open>dw_pcie_wait_for_link\<close> of the DesignWare core (not under
  src/): "a link-up wait is a bounded poll with a fixed timeout, after which the operation
  simply returns failure".  The number of polls is the kernel's
  \<open>LINK_WAIT_MAX_RETRIES\<close>, a parameter here.
\<close>

fun link_wait_poll ::
  "kernel \<Rightarrow> ls1024a_pcie \<Rightarrow> nat \<Rightarrow> event list \<Rightarrow> bool \<times> event list" where
  "link_wait_poll k pcie 0 h = (False, h)"
| "link_wait_poll k pcie (Suc n) h0 =
    (let (up, h) = dw_pcie_link_up k pcie h0
     in if up \<noteq> 0 then (True, h)
        else link_wait_poll k pcie n (call_void Usleep_range h))"

definition dw_pcie_wait_for_link ::
  "kernel \<Rightarrow> ls1024a_pcie \<Rightarrow> event list \<Rightarrow> u32 \<times> event list" where
  "dw_pcie_wait_for_link k pcie h0 =
    (let (up, h) = link_wait_poll k pcie (LINK_WAIT_MAX_RETRIES k) h0
     in if up then (0, h)
        else (- ETIMEDOUT, dev_info ''Phy link never came up'' h))"

definition ls1024a_pcie_establish_link ::
  "kernel \<Rightarrow> ls1024a_pcie \<Rightarrow> event list \<Rightarrow> event list" where
  "ls1024a_pcie_establish_link k pcie h0 =
    (let (up, h) = dw_pcie_link_up k pcie h0;
         h = (if up = 0 then
                let reg = PCIEx_CFGx (port_idx pcie) 5;
                    (val, h) = regmap_read k reg h;
                    val = val AND NOT CFG5_LTSSM_EN
                in regmap_write reg val h
              else h);
         reg = PCIEx_CFGx (port_idx pcie) 0;
         (val, h) = regmap_read k reg h;
         val = val AND NOT CFG0_DEV_TYPE_MASK;
         val = val OR CFG0_DEV_TYPE_RC;
         h = regmap_write reg val h;
         (up, h) = dw_pcie_link_up k pcie h;
         h = (if up = 0 then
                let reg = PCIEx_CFGx (port_idx pcie) 5;
                    (val, h) = regmap_read k reg h;
                    val = val OR (CFG5_LTSSM_EN OR CFG5_APP_INIT_RST)
                in regmap_write reg val h
              else h);
         (ret, h) = dw_pcie_wait_for_link k pcie h
     in if ret \<noteq> 0 then dev_err ''Link not up after reconfiguration'' h else h)"

definition ls1024a_pcie_start_link ::
  "kernel \<Rightarrow> ls1024a_pcie \<Rightarrow> event list \<Rightarrow> u32 \<times> event list" where
  "ls1024a_pcie_start_link k pcie h0 =
    (let h = ls1024a_pcie_establish_link k pcie h0
     in (0, h))"

subsection \<open>Interrupt multiplexer (lines 232 to 328)\<close>

definition ls1024a_pcie_mask_irq :: "ls1024a_pcie \<Rightarrow> nat \<Rightarrow> event list \<Rightarrow> event list" where
  "ls1024a_pcie_mask_irq pcie hwirq h =
    (let irq = BIT hwirq
     in regmap_write_bits (PCIEx_INTR_EN (port_idx pcie)) irq 0 h)"

definition ls1024a_pcie_unmask_irq :: "ls1024a_pcie \<Rightarrow> nat \<Rightarrow> event list \<Rightarrow> event list" where
  "ls1024a_pcie_unmask_irq pcie hwirq h =
    (let irq = BIT hwirq
     in regmap_write_bits (PCIEx_INTR_EN (port_idx pcie)) irq irq h)"

datatype irqreturn = IRQ_NONE | IRQ_HANDLED

datatype kernel_stop = BUG

text \<open>
  The handler repeats one three-line pattern for each of its five slots:
  \<open>virq = irq_find_mapping(domain, slot); if (virq) generic_handle_irq(virq);\<close>
\<close>

definition find_and_handle :: "kernel \<Rightarrow> nat \<Rightarrow> event list \<Rightarrow> event list" where
  "find_and_handle k hwirq h0 =
    (let (virq, h) = irq_find_mapping k hwirq h0
     in if virq \<noteq> 0 then generic_handle_irq virq h else h)"

text \<open>\<open>BUG_ON\<close> stops the kernel: the handler returns nothing and does nothing more.\<close>

definition ls1024a_pcie_intc_handler ::
  "kernel \<Rightarrow> ls1024a_pcie \<Rightarrow> event list \<Rightarrow> (kernel_stop + irqreturn) \<times> event list" where
  "ls1024a_pcie_intc_handler k pcie h0 =
    (let intx_mask =
           PCIE_INTR_INTA_ASSERT OR PCIE_INTR_INTB_ASSERT OR
           PCIE_INTR_INTC_ASSERT OR PCIE_INTR_INTD_ASSERT;
         reg = PCIEx_INTR_STS (port_idx pcie);
         (status, h) = regmap_read k reg h0;
         h = regmap_write reg status h
     in if (status AND PCIE_INTR_MSI) \<noteq> 0 \<and> \<not> CONFIG_PCI_MSI k then (Inl BUG, h)
     else
     let h = (if (status AND PCIE_INTR_MSI) \<noteq> 0
              then find_and_handle k LS1024A_PCIE_INTC_MSI h else h);
         h = (if (status AND intx_mask) \<noteq> 0 then
                let h = (if (status AND PCIE_INTR_INTA_ASSERT) \<noteq> 0
                         then find_and_handle k LS1024A_PCIE_INTC_INTA h else h);
                    h = (if (status AND PCIE_INTR_INTB_ASSERT) \<noteq> 0
                         then find_and_handle k LS1024A_PCIE_INTC_INTB h else h);
                    h = (if (status AND PCIE_INTR_INTC_ASSERT) \<noteq> 0
                         then find_and_handle k LS1024A_PCIE_INTC_INTC h else h);
                    h = (if (status AND PCIE_INTR_INTD_ASSERT) \<noteq> 0
                         then find_and_handle k LS1024A_PCIE_INTC_INTD h else h)
                in h
              else h)
     in (Inr IRQ_HANDLED, h))"

subsection \<open>Interrupt setup and port registration (lines 330 to 416)\<close>




subsection \<open>Probe (lines 423 to 531)\<close>


text \<open>\<open>devm_kzalloc\<close> hands out zeroed memory: every handle \<open>NULL\<close>, port index 0.\<close>

definition kzalloc_pcie :: ls1024a_pcie where
  "kzalloc_pcie = \<lparr>pci = NULL, clk = NULL, phy = NULL, axi_reset = NULL, power_reset = NULL,
     regs_reset = NULL, app_regs = NULL, irq_domain = NULL, port_idx = 0\<rparr>"


section \<open>What the calls do to the hardware\<close>

text \<open>
  Modelled from the spec: the effect of the regmap write calls (the regmap core is not
  under src/) on a register that simply holds what was written to it, as the
  interrupt-enable register does.  \<open>regmap_write\<close> stores the value;
  \<open>regmap_write_bits\<close> is the "atomic set/clear-bits primitive" of sections 4.3 and
  5: the bits selected by the mask take the bits of the value, the others stay.
\<close>

fun regmap_effect :: "(u32 \<Rightarrow> u32) \<Rightarrow> event \<Rightarrow> (u32 \<Rightarrow> u32)" where
  "regmap_effect regs (Regmap_write reg val, r) = regs(reg := val)"
| "regmap_effect regs (Regmap_write_bits reg msk val, r) =
     regs(reg := (regs reg AND NOT msk) OR (val AND msk))"
| "regmap_effect regs other = regs"

definition regs_after :: "(u32 \<Rightarrow> u32) \<Rightarrow> event list \<Rightarrow> (u32 \<Rightarrow> u32)" where
  "regs_after regs evs = foldl regmap_effect regs evs"

text \<open>
  Modelled from the spec: the effect of the reset calls (the reset core is not under
  src/) on the "three independent reset domains": a successful assert leaves the domain
  held in reset, a successful deassert leaves it released, a failed call leaves it as it
  was.  A domain state maps each line to whether it is asserted.
\<close>

fun reset_effect :: "(reset_line \<Rightarrow> bool) \<Rightarrow> event \<Rightarrow> (reset_line \<Rightarrow> bool)" where
  "reset_effect st (Reset_control_assert l, RInt r) = (if r = 0 then st(l := True) else st)"
| "reset_effect st (Reset_control_deassert l, RInt r) = (if r = 0 then st(l := False) else st)"
| "reset_effect st other = st"

definition resets_after :: "(reset_line \<Rightarrow> bool) \<Rightarrow> event list \<Rightarrow> (reset_line \<Rightarrow> bool)" where
  "resets_after st evs = foldl reset_effect st evs"

definition full_assert :: "reset_line \<Rightarrow> bool" where
  "full_assert = (\<lambda>l. True)"

section \<open>Observing a history\<close>

fun is_regmap_write :: "call \<Rightarrow> bool" where
  "is_regmap_write (Regmap_write reg val) = True"
| "is_regmap_write (Regmap_write_bits reg msk val) = True"
| "is_regmap_write c = False"

fun is_regmap_access :: "call \<Rightarrow> bool" where
  "is_regmap_access (Regmap_read reg) = True"
| "is_regmap_access c = is_regmap_write c"


fun is_reset_assert :: "call \<Rightarrow> bool" where
  "is_reset_assert (Reset_control_assert l) = True"
| "is_reset_assert c = False"

fun is_reset_deassert :: "call \<Rightarrow> bool" where
  "is_reset_deassert (Reset_control_deassert l) = True"
| "is_reset_deassert c = False"


definition regmap_writes :: "event list \<Rightarrow> call list" where
  "regmap_writes evs = filter is_regmap_write (map fst evs)"

definition regmap_accesses :: "event list \<Rightarrow> call list" where
  "regmap_accesses evs = filter is_regmap_access (map fst evs)"


definition assert_events :: "event list \<Rightarrow> event list" where
  "assert_events evs = filter (\<lambda>e. is_reset_assert (fst e)) evs"

definition deassert_events :: "event list \<Rightarrow> event list" where
  "deassert_events evs = filter (\<lambda>e. is_reset_deassert (fst e)) evs"

section \<open>Sample kernels\<close>

text \<open>A kernel in which every service succeeds and every register reads a fixed value.\<close>

definition quiet_kernel :: "u32 \<Rightarrow> kernel" where
  "quiet_kernel v =
     \<lparr>CONFIG_PCI_MSI = True, LINK_WAIT_MAX_RETRIES = 2,
      ret_int = (\<lambda>h c. case c of Regmap_read reg \<Rightarrow> v | Irq_find_mapping n \<Rightarrow> 40 + of_nat n
                              | _ \<Rightarrow> 0),
      ret_ptr = (\<lambda>h c. Valid)\<rparr>"

text \<open>
  Two kernels with a faulty reset controller: in the first the power domain cannot be
  released; in the second the register-block domain can be neither released nor
  asserted.
\<close>

definition power_stuck_kernel :: kernel where
  "power_stuck_kernel =
     \<lparr>CONFIG_PCI_MSI = True, LINK_WAIT_MAX_RETRIES = 2,
      ret_int = (\<lambda>h c. case c of Reset_control_deassert l \<Rightarrow> (if l = Power then - 5 else 0)
                              | _ \<Rightarrow> 0),
      ret_ptr = (\<lambda>h c. Valid)\<rparr>"

definition regs_stuck_kernel :: kernel where
  "regs_stuck_kernel =
     \<lparr>CONFIG_PCI_MSI = True, LINK_WAIT_MAX_RETRIES = 2,
      ret_int = (\<lambda>h c. case c of Reset_control_deassert l \<Rightarrow> (if l = Regs then - 5 else 0)
                              | Reset_control_assert l \<Rightarrow> (if l = Regs then - 5 else 0)
                              | _ \<Rightarrow> 0),
      ret_ptr = (\<lambda>h c. Valid)\<rparr>"


definition port0 :: ls1024a_pcie where
  "port0 = kzalloc_pcie\<lparr>pci := Valid, clk := Valid, phy := Valid, axi_reset := Valid,
     power_reset := Valid, regs_reset := Valid, app_regs := Valid, irq_domain := Valid\<rparr>"

section \<open>Register layout\<close>

lemma bit_BIT: "n < 32 \<Longrightarrow> bit (BIT n) m \<longleftrightarrow> m = n"
  by (auto simp: BIT_def bit_exp_iff possible_bit_word)

lemmas macro_defs = PCIEx_CFGx_def PCIEx_STSx_def PCIEx_INTR_STS_def PCIEx_INTR_EN_def
lemmas call_defs = call_int_def call_ptr_def call_void_def regmap_read_def regmap_write_def
  regmap_write_bits_def dev_err_def dev_dbg_def dev_info_def pr_err_def
  irq_find_mapping_def generic_handle_irq_def

text \<open>
  Claim C8.  For both port indices the register offsets are as the layout table gives
  them: config registers at \<open>P*0x20 + reg*0x4\<close>, link status registers at
  \<open>0x40 + P*0xC + reg*0x4\<close>, interrupt status at \<open>0x100 + P*0x10\<close> and
  interrupt enable at \<open>0x104 + P*0x10\<close>, in 32-bit arithmetic for every register
  number and as plain numbers for every register number that does not overflow.  The
  device type is bits 3 to 0 with root complex 0x4, app-init-reset is bit 0 and LTSSM
  enable bit 1 of config register 5, and INTA/B/C/D assert and MSI are bits 0, 2, 4, 6
  and 12.
\<close>

theorem layout_C8:
  assumes "P \<in> {0, 1}"
  shows "PCIEx_CFGx P reg = P * 0x20 + reg * 0x4
       \<and> PCIEx_STSx P reg = 0x40 + P * 0xC + reg * 0x4
       \<and> PCIEx_INTR_STS P = 0x100 + P * 0x10
       \<and> PCIEx_INTR_EN P = 0x104 + P * 0x10
       \<and> (unat reg < 2 ^ 20 \<longrightarrow>
            unat (PCIEx_CFGx P reg) = unat P * 0x20 + unat reg * 0x4
          \<and> unat (PCIEx_STSx P reg) = 0x40 + unat P * 0xC + unat reg * 0x4)
       \<and> unat (PCIEx_INTR_STS P) = 0x100 + unat P * 0x10
       \<and> unat (PCIEx_INTR_EN P) = 0x104 + unat P * 0x10
       \<and> CFG0_DEV_TYPE_MASK = mask 4 \<and> CFG0_DEV_TYPE_RC = 0x4
       \<and> (\<forall>n. bit CFG5_APP_INIT_RST n = (n = 0))
       \<and> (\<forall>n. bit CFG5_LTSSM_EN n = (n = 1))
       \<and> (\<forall>n. bit PCIE_INTR_INTA_ASSERT n = (n = 0))
       \<and> (\<forall>n. bit PCIE_INTR_INTB_ASSERT n = (n = 2))
       \<and> (\<forall>n. bit PCIE_INTR_INTC_ASSERT n = (n = 4))
       \<and> (\<forall>n. bit PCIE_INTR_INTD_ASSERT n = (n = 6))
       \<and> (\<forall>n. bit PCIE_INTR_MSI n = (n = 12))"
proof -
  have P: "unat P \<le> 1" using assms by auto
  have cfg: "unat (PCIEx_CFGx P reg) = unat P * 0x20 + unat reg * 0x4" 
    and sts: "unat (PCIEx_STSx P reg) = 0x40 + unat P * 0xC + unat reg * 0x4"
    if "unat reg < 2 ^ 20"
    using that P by (simp_all add: macro_defs unat_word_ariths)
  have ints: "unat (PCIEx_INTR_STS P) = 0x100 + unat P * 0x10"
    and inte: "unat (PCIEx_INTR_EN P) = 0x104 + unat P * 0x10"
    using P by (simp_all add: macro_defs unat_word_ariths)
  have m: "CFG0_DEV_TYPE_MASK = mask 4" by (simp add: CFG0_DEV_TYPE_MASK_def mask_eq_exp_minus_1)
  show ?thesis
    using cfg sts ints inte m
    by (simp add: macro_defs CFG0_DEV_TYPE_RC_def CFG5_APP_INIT_RST_def CFG5_LTSSM_EN_def
        PCIE_INTR_INTA_ASSERT_def PCIE_INTR_INTB_ASSERT_def PCIE_INTR_INTC_ASSERT_def
        PCIE_INTR_INTD_ASSERT_def PCIE_INTR_MSI_def bit_BIT)
qed

theorem layout_C8_witness:
  "(1::u32) \<in> {0, 1} \<and> PCIEx_CFGx 1 5 = 0x34 \<and> PCIEx_STSx 1 5 = 0x60
     \<and> PCIEx_INTR_STS 1 = 0x110 \<and> PCIEx_INTR_EN 1 = 0x114
     \<and> unat (PCIEx_CFGx 1 5) = 0x34"
  using layout_C8 [of 1 5] by simp

section \<open>The link-up query\<close>

lemma and_BIT_eq: 
  assumes "n < 32" shows "(v AND BIT n = BIT n) \<longleftrightarrow> bit v n"
proof
  assume "v AND BIT n = BIT n"
  then have "bit (v AND BIT n) n = bit (BIT n) n" by simp
  then show "bit v n" using assms by (simp add: bit_and_iff bit_BIT)
next
  assume "bit v n"
  then show "v AND BIT n = BIT n"
    using assms by (intro bit_word_eqI) (auto simp: bit_and_iff bit_BIT)
qed

lemma and_BIT_eq0:
  assumes "n < 32" shows "(v AND BIT n = 0) \<longleftrightarrow> \<not> bit v n"
proof
  assume "v AND BIT n = 0"
  then have "bit (v AND BIT n) n = bit (0 :: u32) n" by simp
  then show "\<not> bit v n" using assms by (simp add: bit_and_iff bit_BIT)
next
  assume "\<not> bit v n"
  then show "v AND BIT n = 0"
    using assms by (intro bit_word_eqI) (auto simp: bit_and_iff bit_BIT)
qed

text \<open>
  Claim C3.  Whatever link status register 0 of the port holds, \<open>link_up\<close> returns
  1 exactly when bit 16 of the value read is set and 0 otherwise; it reads that one
  register once, writes nothing, and its result depends on the value read alone.
\<close>

theorem link_up_C3:
  fixes k pcie h
  defines "reg \<equiv> 0x40 + port_idx pcie * 0xC"
  defines "v \<equiv> ret_int k h (Regmap_read reg)"
  shows "fst (ls1024a_pcie_link_up k pcie h) = (if bit v 16 then 1 else 0)
       \<and> regmap_accesses (snd (ls1024a_pcie_link_up k pcie h))
           = regmap_accesses h @ [Regmap_read reg]
       \<and> regmap_writes (snd (ls1024a_pcie_link_up k pcie h)) = regmap_writes h"
  unfolding reg_def v_def
  by (simp add: ls1024a_pcie_link_up_def macro_defs call_defs Let_def STS0_RDLH_LINK_UP_def
      and_BIT_eq regmap_accesses_def regmap_writes_def)

theorem link_up_C3_witness:
  "fst (ls1024a_pcie_link_up (quiet_kernel 0x10000) port0 []) = 1
   \<and> fst (ls1024a_pcie_link_up (quiet_kernel 0xFFFEFFFF) port0 []) = 0"
  using link_up_C3 [of "quiet_kernel 0x10000" port0 "[]"]
    link_up_C3 [of "quiet_kernel 0xFFFEFFFF" port0 "[]"]
  by (simp add: quiet_kernel_def port0_def kzalloc_pcie_def bit_iff_odd)

section \<open>The interrupt handler\<close>




text \<open>
  Claim C10.  The handler stops in \<open>BUG_ON\<close> exactly when bit 12 (MSI) of the status
  snapshot is set and \<open>CONFIG_PCI_MSI\<close> is disabled; it has then done nothing but
  read and acknowledge the status.  With \<open>CONFIG_PCI_MSI\<close> enabled it always
  returns normally.
\<close>

theorem msi_bug_C10:
  fixes k pcie h
  defines "reg \<equiv> PCIEx_INTR_STS (port_idx pcie)"
  defines "status \<equiv> ret_int k h (Regmap_read reg)"
  shows "(fst (ls1024a_pcie_intc_handler k pcie h) = Inl BUG)
           = (bit status 12 \<and> \<not> CONFIG_PCI_MSI k)
       \<and> (bit status 12 \<and> \<not> CONFIG_PCI_MSI k \<longrightarrow>
            snd (ls1024a_pcie_intc_handler k pcie h)
              = h @ [(Regmap_read reg, RInt status), (Regmap_write reg status, RVoid)])
       \<and> (CONFIG_PCI_MSI k \<longrightarrow> fst (ls1024a_pcie_intc_handler k pcie h) = Inr IRQ_HANDLED)"
  unfolding reg_def status_def
  by (simp add: ls1024a_pcie_intc_handler_def PCIE_INTR_MSI_def call_defs Let_def and_BIT_eq0)

theorem msi_bug_C10_witness:
  "bit (0x1000 :: u32) 12 \<and> \<not> CONFIG_PCI_MSI (quiet_kernel 0x1000\<lparr>CONFIG_PCI_MSI := False\<rparr>)
   \<and> ls1024a_pcie_intc_handler (quiet_kernel 0x1000\<lparr>CONFIG_PCI_MSI := False\<rparr>) port0 []
       = (Inl BUG, [(Regmap_read 0x100, RInt 0x1000), (Regmap_write 0x100 0x1000, RVoid)])
   \<and> CONFIG_PCI_MSI (quiet_kernel 0x1000)
   \<and> fst (ls1024a_pcie_intc_handler (quiet_kernel 0x1000) port0 []) = Inr IRQ_HANDLED"
  using msi_bug_C10 [of "quiet_kernel 0x1000\<lparr>CONFIG_PCI_MSI := False\<rparr>" port0 "[]"]
    msi_bug_C10 [of "quiet_kernel 0x1000" port0 "[]"]
  by (simp add: quiet_kernel_def port0_def kzalloc_pcie_def PCIEx_INTR_STS_def prod_eq_iff
      bit_iff_odd)






section \<open>Masking and unmasking\<close>

lemma regs_after_simps:
  "regs_after regs (evs @ evs') = regs_after (regs_after regs evs) evs'"
  "regs_after regs (e # evs) = regs_after (regmap_effect regs e) evs"
  "regs_after regs [] = regs"
  by (simp_all add: regs_after_def)

lemma mask_then_set:
  "((r AND NOT m) AND NOT m) OR (m AND m) = (r OR m :: u32)"
  by (rule bit_word_eqI) (auto simp: bit_and_iff bit_or_iff bit_not_iff)

lemma clear_then_set: "(r AND NOT m) OR m = (r OR m :: u32)"
  by (rule bit_word_eqI) (auto simp: bit_and_iff bit_or_iff bit_not_iff)

text \<open>
  Claim C7.  For every slot below the word size and every content of the register bank,
  \<open>mask\<close> followed by \<open>unmask\<close> of the slot leaves the port's enable
  register with the slot's bit set and every other bit as it was, and leaves every other
  register alone; \<open>mask\<close> alone clears just that bit and \<open>unmask\<close> alone
  sets just that bit.
\<close>

theorem mask_unmask_C7:
  fixes pcie hwirq regs h
  defines "en \<equiv> PCIEx_INTR_EN (port_idx pcie)"
  defines "r \<equiv> regs_after regs h"
  defines "masked \<equiv> regs_after regs (ls1024a_pcie_mask_irq pcie hwirq h)"
  defines "unmasked \<equiv> regs_after regs (ls1024a_pcie_unmask_irq pcie hwirq h)"
  defines "both \<equiv> regs_after regs
     (ls1024a_pcie_unmask_irq pcie hwirq (ls1024a_pcie_mask_irq pcie hwirq h))"
  assumes "hwirq < 32"
  shows "both = r(en := r en OR BIT hwirq)
       \<and> (\<forall>n. bit (both en) n = (n = hwirq \<or> bit (r en) n))
       \<and> masked = r(en := r en AND NOT (BIT hwirq))
       \<and> (\<forall>n. bit (masked en) n = (n \<noteq> hwirq \<and> bit (r en) n))
       \<and> unmasked = r(en := r en OR BIT hwirq)
       \<and> (\<forall>n. bit (unmasked en) n = (n = hwirq \<or> bit (r en) n))"
proof -
  have m: "masked = r(en := r en AND NOT (BIT hwirq))"
    by (simp add: masked_def r_def en_def ls1024a_pcie_mask_irq_def regmap_write_bits_def
        call_void_def regs_after_simps)
  have u: "unmasked = r(en := r en OR BIT hwirq)"
    by (simp add: unmasked_def r_def en_def ls1024a_pcie_unmask_irq_def regmap_write_bits_def
        call_void_def regs_after_simps Let_def clear_then_set)
  have b: "both = r(en := r en OR BIT hwirq)"
    by (simp add: both_def r_def en_def ls1024a_pcie_mask_irq_def ls1024a_pcie_unmask_irq_def
        regmap_write_bits_def call_void_def regs_after_simps Let_def mask_then_set clear_then_set)
  show ?thesis
    using assms(6) by (auto simp: m u b bit_and_iff bit_or_iff bit_not_iff bit_BIT dest: bit_imp_le_length)
qed

theorem mask_unmask_C7_witness:
  "(2::nat) < 32
   \<and> regs_after (\<lambda>reg. 0x1001)
        (ls1024a_pcie_unmask_irq port0 2 (ls1024a_pcie_mask_irq port0 2 [])) 0x104 = 0x1005
   \<and> regs_after (\<lambda>reg. 0x1005) (ls1024a_pcie_mask_irq port0 2 []) 0x104 = 0x1001"
  using mask_unmask_C7 [of 2 "\<lambda>reg. 0x1001" port0 "[]"] mask_unmask_C7 [of 2 "\<lambda>reg. 0x1005" port0 "[]"]
  by (simp add: port0_def kzalloc_pcie_def PCIEx_INTR_EN_def BIT_def regs_after_def)

section \<open>Reset rollback\<close>

lemma resets_after_simps:
  "resets_after st (evs @ evs') = resets_after (resets_after st evs) evs'"
  "resets_after st (e # evs) = resets_after (reset_effect st e) evs"
  "resets_after st [] = st"
  by (simp_all add: resets_after_def)

lemma event_filter_simps:
  "assert_events (evs @ evs') = assert_events evs @ assert_events evs'"
  "assert_events (e # evs) = (if is_reset_assert (fst e) then [e] else []) @ assert_events evs"
  "assert_events [] = []"
  "deassert_events (evs @ evs') = deassert_events evs @ deassert_events evs'"
  "deassert_events (e # evs) = (if is_reset_deassert (fst e) then [e] else []) @ deassert_events evs"
  "deassert_events [] = []"
  by (simp_all add: assert_events_def deassert_events_def)

lemma all_lines: "(\<forall>l. P l) \<longleftrightarrow> P Axi \<and> P Power \<and> P Regs"
  by (metis reset_line.exhaust)

lemma reset_assert_events:
  "\<exists>r new. ls1024a_reset_assert k h = (r, h @ new) \<and> deassert_events new = []
     \<and> assert_events new \<noteq> []
     \<and> map fst (assert_events new)
         = take (length (assert_events new))
             [Reset_control_assert Regs, Reset_control_assert Power, Reset_control_assert Axi]
     \<and> (\<forall>e \<in> set (butlast (assert_events new)). snd e = RInt 0)
     \<and> (length (assert_events new) < 3 \<longrightarrow> snd (last (assert_events new)) \<noteq> RInt 0)
     \<and> ((\<forall>e \<in> set (assert_events new). snd e = RInt 0) \<longrightarrow>
          map fst (assert_events new)
            = [Reset_control_assert Regs, Reset_control_assert Power, Reset_control_assert Axi]
        \<and> (\<forall>st. resets_after st new = full_assert))"
  by (simp add: ls1024a_reset_assert_def reset_control_assert_def call_int_def dev_err_def
      call_void_def Let_def event_filter_simps resets_after_simps full_assert_def fun_eq_iff
      all_lines)

text \<open>
  Claim C5, as amended.  When \<open>deassert_all\<close> fails at any of its three steps, the
  code it returns is the code of the failing deassert call, every deassert before it
  having succeeded.  Before returning it logs the failure and runs \<open>assert_all\<close>:
  what follows the log is exactly what \<open>ls1024a_reset_assert\<close> appends, it holds no
  deassert, and the asserts are attempted in the order regs, power, axi, each one only
  after the one before it succeeded, so the rollback stops at the first assert that
  fails.  If every assert of the rollback succeeds, all three domains were asserted and
  the domains end in the full-assert state whatever their state was before.
\<close>

theorem deassert_rollback_C5:
  fixes k h st
  defines "res \<equiv> fst (ls1024a_reset_deassert k h)"
  defines "regs_power_axi \<equiv>
    [Reset_control_assert Regs, Reset_control_assert Power, Reset_control_assert Axi]"
  shows "\<exists>new. snd (ls1024a_reset_deassert k h) = h @ new
      \<and> (res \<noteq> 0 \<longrightarrow>
           (\<exists>ok l. deassert_events new = ok @ [(Reset_control_deassert l, RInt res)]
                 \<and> (\<forall>e \<in> set ok. snd e = RInt 0))
         \<and> (\<exists>ds rb. new = ds @ (Dev_err ''Failed to deassert resets: %d'', RVoid) # rb
                 \<and> assert_events ds = [] \<and> deassert_events rb = []
                 \<and> snd (ls1024a_reset_assert k
                          (h @ ds @ [(Dev_err ''Failed to deassert resets: %d'', RVoid)]))
                     = h @ new)
         \<and> assert_events new \<noteq> []
         \<and> map fst (assert_events new) = take (length (assert_events new)) regs_power_axi
         \<and> (\<forall>e \<in> set (butlast (assert_events new)). snd e = RInt 0)
         \<and> (length (assert_events new) < 3 \<longrightarrow> snd (last (assert_events new)) \<noteq> RInt 0)
         \<and> ((\<forall>e \<in> set (assert_events new). snd e = RInt 0) \<longrightarrow>
              map fst (assert_events new) = regs_power_axi
            \<and> resets_after st new = full_assert))"
    (is "\<exists>new. ?rolled_back new")
proof -
  let ?axi = "(Reset_control_deassert Axi, RInt 0)"
  let ?power = "(Reset_control_deassert Power, RInt 0)"
  let ?r1 = "ret_int k h (Reset_control_deassert Axi)"
  let ?r2 = "ret_int k (h @ [?axi]) (Reset_control_deassert Power)"
  let ?r3 = "ret_int k (h @ [?axi, ?power]) (Reset_control_deassert Regs)"
  define m where "m = (Dev_err ''Failed to deassert resets: %d'', RVoid)"
  note defs = ls1024a_reset_deassert_def reset_control_deassert_def call_int_def
    dev_err_def call_void_def Let_def split_def m_def
  have rollback: ?thesis
    if run: "ls1024a_reset_deassert k h = (r, snd (ls1024a_reset_assert k (h @ ds @ [m])))"
      and ds: "deassert_events ds = ok @ [(Reset_control_deassert l, RInt r)]"
        "\<forall>e \<in> set ok. snd e = RInt 0" "assert_events ds = []"
    for r ds ok l
  proof -
    obtain ra rb where a: "ls1024a_reset_assert k (h @ ds @ [m]) = (ra, (h @ ds @ [m]) @ rb)"
      and nd: "deassert_events rb = []"
      and ne: "assert_events rb \<noteq> []"
      and order: "map fst (assert_events rb) = take (length (assert_events rb)) regs_power_axi"
      and before: "\<forall>e \<in> set (butlast (assert_events rb)). snd e = RInt 0"
      and stop: "length (assert_events rb) < 3 \<longrightarrow> snd (last (assert_events rb)) \<noteq> RInt 0"
      and ok: "(\<forall>e \<in> set (assert_events rb). snd e = RInt 0) \<longrightarrow>
          map fst (assert_events rb) = regs_power_axi
        \<and> (\<forall>st. resets_after st rb = full_assert)"
      using reset_assert_events [of k "h @ ds @ [m]", folded regs_power_axi_def]
      by (elim exE conjE) (rule that)
    define new where "new = ds @ m # rb"
    have ext: "snd (ls1024a_reset_deassert k h) = h @ new"
      by (simp add: run a new_def)
    have code: "res = r" by (simp add: res_def run)
    have de: "deassert_events new = ok @ [(Reset_control_deassert l, RInt r)]"
      by (simp add: new_def event_filter_simps ds nd m_def)
    have as: "assert_events new = assert_events rb"
      by (simp add: new_def event_filter_simps ds m_def)
    have same: "snd (ls1024a_reset_assert k (h @ ds @ [m])) = h @ new"
      by (simp add: a new_def)
    have state: "resets_after st new = full_assert"
      if "\<forall>st. resets_after st rb = full_assert"
      using that by (simp add: new_def resets_after_simps)
    have part1: "\<exists>ok l. deassert_events new = ok @ [(Reset_control_deassert l, RInt res)]
        \<and> (\<forall>e \<in> set ok. snd e = RInt 0)"
      using de ds(2) unfolding code by blast
    have part2: "\<exists>ds rb. new = ds @ (Dev_err ''Failed to deassert resets: %d'', RVoid) # rb
        \<and> assert_events ds = [] \<and> deassert_events rb = []
        \<and> snd (ls1024a_reset_assert k
                 (h @ ds @ [(Dev_err ''Failed to deassert resets: %d'', RVoid)]))
            = h @ new"
      using new_def ds(3) nd same unfolding m_def by blast
    have part3: "(\<forall>e \<in> set (assert_events new). snd e = RInt 0) \<longrightarrow>
        map fst (assert_events new) = regs_power_axi \<and> resets_after st new = full_assert"
      using ok state unfolding as by blast
    have "?rolled_back new"
      using ext part1 part2 ne [folded as] order [folded as] before [folded as]
        stop [folded as] part3
      by - (intro conjI impI; blast)
    then show ?thesis by (rule exI [of _ new])
  qed
  consider (axi) "?r1 \<noteq> 0" | (power) "?r1 = 0" "?r2 \<noteq> 0"
    | (regs) "?r1 = 0" "?r2 = 0" "?r3 \<noteq> 0" | (released) "?r1 = 0" "?r2 = 0" "?r3 = 0"
    by blast
  then show ?thesis
  proof cases
    case axi
    have "ls1024a_reset_deassert k h
        = (?r1, snd (ls1024a_reset_assert k
             (h @ [(Reset_control_deassert Axi, RInt ?r1)] @ [m])))"
      using axi by (simp add: defs)
    then show ?thesis
      by (rule rollback [where ok = "[]" and l = Axi]) (simp_all add: event_filter_simps)
  next
    case power
    have "ls1024a_reset_deassert k h
        = (?r2, snd (ls1024a_reset_assert k
             (h @ [?axi, (Reset_control_deassert Power, RInt ?r2)] @ [m])))"
      using power by (simp add: defs)
    then show ?thesis
      by (rule rollback [where ok = "[?axi]" and l = Power]) (simp_all add: event_filter_simps)
  next
    case regs
    have "ls1024a_reset_deassert k h
        = (?r3, snd (ls1024a_reset_assert k
             (h @ [?axi, ?power, (Reset_control_deassert Regs, RInt ?r3)] @ [m])))"
      using regs by (simp add: defs)
    then show ?thesis
      by (rule rollback [where ok = "[?axi, ?power]" and l = Regs])
        (simp_all add: event_filter_simps)
  next
    case released
    then have "fst (ls1024a_reset_deassert k h) = 0"
      "snd (ls1024a_reset_deassert k h)
         = h @ [?axi, ?power, (Reset_control_deassert Regs, RInt 0)]"
      by (simp_all add: defs)
    then show ?thesis by (simp add: res_def)
  qed
qed

theorem deassert_rollback_C5_witness:
  "fst (ls1024a_reset_deassert power_stuck_kernel []) \<noteq> 0
   \<and> map snd (assert_events (snd (ls1024a_reset_deassert power_stuck_kernel [])))
       = [RInt 0, RInt 0, RInt 0]
   \<and> map fst (assert_events (snd (ls1024a_reset_deassert power_stuck_kernel [])))
       = [Reset_control_assert Regs, Reset_control_assert Power, Reset_control_assert Axi]
   \<and> resets_after full_assert (snd (ls1024a_reset_deassert power_stuck_kernel []))
       = full_assert
   \<and> fst (ls1024a_reset_deassert regs_stuck_kernel []) \<noteq> 0
   \<and> length (assert_events (snd (ls1024a_reset_deassert regs_stuck_kernel []))) < 3
   \<and> snd (last (assert_events (snd (ls1024a_reset_deassert regs_stuck_kernel []))))
       \<noteq> RInt 0"
proof -
  note defs = ls1024a_reset_deassert_def ls1024a_reset_assert_def
    reset_control_deassert_def reset_control_assert_def call_int_def dev_err_def
    call_void_def Let_def
  have run: "ls1024a_reset_deassert power_stuck_kernel []
     = (- 5, [(Reset_control_deassert Axi, RInt 0), (Reset_control_deassert Power, RInt (- 5)),
              (Dev_err ''Failed to deassert resets: %d'', RVoid),
              (Reset_control_assert Regs, RInt 0), (Reset_control_assert Power, RInt 0),
              (Reset_control_assert Axi, RInt 0)])"
    by (simp add: defs power_stuck_kernel_def)
  have hyp: "fst (ls1024a_reset_deassert power_stuck_kernel []) \<noteq> 0"
    "\<forall>e \<in> set (assert_events (snd (ls1024a_reset_deassert power_stuck_kernel []))).
         snd e = RInt 0"
    by (simp_all add: run assert_events_def)
  have codes: "map snd (assert_events (snd (ls1024a_reset_deassert power_stuck_kernel [])))
       = [RInt 0, RInt 0, RInt 0]"
    by (simp add: run assert_events_def)
  have run': "ls1024a_reset_deassert regs_stuck_kernel []
     = (- 5, [(Reset_control_deassert Axi, RInt 0), (Reset_control_deassert Power, RInt 0),
              (Reset_control_deassert Regs, RInt (- 5)),
              (Dev_err ''Failed to deassert resets: %d'', RVoid),
              (Reset_control_assert Regs, RInt (- 5)),
              (Dev_err ''Failed to assert resets: %d'', RVoid)])"
    by (simp add: defs regs_stuck_kernel_def)
  have hyp': "fst (ls1024a_reset_deassert regs_stuck_kernel []) \<noteq> 0"
    "length (assert_events (snd (ls1024a_reset_deassert regs_stuck_kernel []))) < 3"
    by (simp_all add: run' assert_events_def)
  have full: "map fst (assert_events (snd (ls1024a_reset_deassert power_stuck_kernel [])))
       = [Reset_control_assert Regs, Reset_control_assert Power, Reset_control_assert Axi]
     \<and> resets_after full_assert (snd (ls1024a_reset_deassert power_stuck_kernel []))
       = full_assert"
    using deassert_rollback_C5 [of power_stuck_kernel "[]" full_assert] hyp by auto
  have stopped:
    "snd (last (assert_events (snd (ls1024a_reset_deassert regs_stuck_kernel [])))) \<noteq> RInt 0"
    using deassert_rollback_C5 [of regs_stuck_kernel "[]" full_assert] hyp' by auto
  show ?thesis using hyp(1) codes full hyp' stopped by simp
qed

text \<open>
  The claim as stated promises full-assert after every failed deassert.  The rollback is
  \<open>assert_all\<close>, which stops at its first failure: when the regs deassert fails and
  the regs assert of the rollback fails as well, the power and AXI domains stay released.
\<close>

theorem deassert_rollback_C5_counterexample:
  "fst (ls1024a_reset_deassert regs_stuck_kernel []) \<noteq> 0
   \<and> resets_after full_assert (snd (ls1024a_reset_deassert regs_stuck_kernel []))
       \<noteq> full_assert
   \<and> \<not> resets_after full_assert (snd (ls1024a_reset_deassert regs_stuck_kernel [])) Axi
   \<and> \<not> resets_after full_assert (snd (ls1024a_reset_deassert regs_stuck_kernel [])) Power"
proof -
  have run: "ls1024a_reset_deassert regs_stuck_kernel []
     = (- 5, [(Reset_control_deassert Axi, RInt 0), (Reset_control_deassert Power, RInt 0),
              (Reset_control_deassert Regs, RInt (- 5)),
              (Dev_err ''Failed to deassert resets: %d'', RVoid),
              (Reset_control_assert Regs, RInt (- 5)),
              (Dev_err ''Failed to assert resets: %d'', RVoid)])"
    by (simp add: ls1024a_reset_deassert_def ls1024a_reset_assert_def
        reset_control_deassert_def reset_control_assert_def call_int_def dev_err_def
        call_void_def Let_def regs_stuck_kernel_def)
  have axi: "\<not> resets_after full_assert (snd (ls1024a_reset_deassert regs_stuck_kernel [])) Axi"
    and power:
      "\<not> resets_after full_assert (snd (ls1024a_reset_deassert regs_stuck_kernel [])) Power"
    by (simp_all add: run resets_after_simps)
  from axi have "resets_after full_assert (snd (ls1024a_reset_deassert regs_stuck_kernel []))
       \<noteq> full_assert"
    by (auto simp: full_assert_def)
  then show ?thesis using axi power by (simp add: run)
qed

section \<open>Starting the link\<close>

text \<open>
  Claim C9.  \<open>start_link\<close> returns 0 for every kernel, port and history.  With a
  link that never comes up the bounded wait fails, the failure is logged as the last
  event, and the result is still 0.
\<close>

theorem start_link_C9:
  "fst (ls1024a_pcie_start_link k pcie h) = 0
   \<and> fst (dw_pcie_wait_for_link (quiet_kernel 0) port0 []) \<noteq> 0
   \<and> fst (ls1024a_pcie_start_link (quiet_kernel 0) port0 []) = 0
   \<and> last (snd (ls1024a_pcie_start_link (quiet_kernel 0) port0 []))
       = (Dev_err ''Link not up after reconfiguration'', RVoid)"
proof -
  have a: "fst (ls1024a_pcie_start_link k pcie h) = 0" for k pcie h
    by (simp add: ls1024a_pcie_start_link_def Let_def)
  have up: "dw_pcie_link_up (quiet_kernel 0) port0 h
      = (0, h @ [(Regmap_read 0x40, RInt 0), (Dev_dbg ''No link detected (PCIE%u_STS0: 0x%x).'', RVoid)])" for h
    by (simp add: dw_pcie_link_up_def ls1024a_pcie_link_up_def quiet_kernel_def port0_def
        kzalloc_pcie_def macro_defs call_defs STS0_RDLH_LINK_UP_def BIT_def)
  have w: "fst (dw_pcie_wait_for_link (quiet_kernel 0) port0 h) = - ETIMEDOUT" for h
  proof -
    have n: "LINK_WAIT_MAX_RETRIES (quiet_kernel 0) = Suc (Suc 0)"
      by (simp add: quiet_kernel_def)
    show ?thesis
      by (simp add: dw_pcie_wait_for_link_def n up Let_def)
  qed
  have e: "- ETIMEDOUT \<noteq> (0::u32)" by (simp add: ETIMEDOUT_def)
  have l: "last (snd (ls1024a_pcie_start_link (quiet_kernel 0) port0 []))
       = (Dev_err ''Link not up after reconfiguration'', RVoid)"
    by (simp add: ls1024a_pcie_start_link_def ls1024a_pcie_establish_link_def split_def Let_def
        w ETIMEDOUT_def dev_err_def call_void_def)
  show ?thesis using a w e l by simp
qed

lemma regmap_writes_simps:
  "regmap_writes (evs @ evs') = regmap_writes evs @ regmap_writes evs'"
  "regmap_writes (e # evs) = (if is_regmap_write (fst e) then [fst e] else []) @ regmap_writes evs"
  "regmap_writes [] = []"
  by (simp_all add: regmap_writes_def)

lemma link_up_query:
  "\<exists>new. dw_pcie_link_up k pcie h
      = ((if bit (ret_int k h (Regmap_read (PCIEx_STSx (port_idx pcie) 0))) 16 then 1 else 0),
         h @ new)
    \<and> regmap_writes new = []"
  by (simp add: dw_pcie_link_up_def ls1024a_pcie_link_up_def regmap_read_def call_int_def
      dev_dbg_def call_void_def Let_def STS0_RDLH_LINK_UP_def and_BIT_eq regmap_writes_simps)

lemma link_wait_poll_no_write:
  "\<exists>new. snd (link_wait_poll k pcie n h) = h @ new \<and> regmap_writes new = []"
proof (induction n arbitrary: h)
  case 0
  then show ?case by (simp add: regmap_writes_simps)
next
  case (Suc n)
  obtain u new1 where q: "dw_pcie_link_up k pcie h = (u, h @ new1)" "regmap_writes new1 = []"
    using link_up_query [of k pcie h] by (elim exE conjE) (rule that)
  obtain new2 where p: "snd (link_wait_poll k pcie n (h @ new1 @ [(Usleep_range, RVoid)]))
       = (h @ new1 @ [(Usleep_range, RVoid)]) @ new2" "regmap_writes new2 = []"
    using Suc.IH [of "h @ new1 @ [(Usleep_range, RVoid)]"] by (elim exE conjE) (rule that)
  show ?case
  proof (cases "u = 0")
    case True
    then have "snd (link_wait_poll k pcie (Suc n) h) = h @ (new1 @ [(Usleep_range, RVoid)] @ new2)"
      using p(1) by (simp add: q call_void_def)
    moreover have "regmap_writes (new1 @ [(Usleep_range, RVoid)] @ new2) = []"
      by (simp add: regmap_writes_simps q p)
    ultimately show ?thesis by blast
  next
    case False
    then have "snd (link_wait_poll k pcie (Suc n) h) = h @ new1"
      by (simp add: q)
    then show ?thesis using q(2) by blast
  qed
qed

lemma wait_for_link_no_write:
  "\<exists>r new. dw_pcie_wait_for_link k pcie h = (r, h @ new) \<and> regmap_writes new = []"
proof -
  obtain new where p: "snd (link_wait_poll k pcie (LINK_WAIT_MAX_RETRIES k) h) = h @ new"
    "regmap_writes new = []"
    using link_wait_poll_no_write [of k pcie "LINK_WAIT_MAX_RETRIES k" h]
    by (elim exE conjE) (rule that)
  show ?thesis
  proof (cases "fst (link_wait_poll k pcie (LINK_WAIT_MAX_RETRIES k) h)")
    case True
    then have "dw_pcie_wait_for_link k pcie h = (0, h @ new)"
      by (simp add: dw_pcie_wait_for_link_def split_def p)
    then show ?thesis using p(2) by blast
  next
    case False
    then have "dw_pcie_wait_for_link k pcie h
        = (- ETIMEDOUT, h @ (new @ [(Dev_info ''Phy link never came up'', RVoid)]))"
      by (simp add: dw_pcie_wait_for_link_def split_def p dev_info_def call_void_def)
    moreover have "regmap_writes (new @ [(Dev_info ''Phy link never came up'', RVoid)]) = []"
      by (simp add: regmap_writes_simps p)
    ultimately show ?thesis by blast
  qed
qed

lemma dev_type_field:
  "((v AND NOT CFG0_DEV_TYPE_MASK) OR CFG0_DEV_TYPE_RC) AND CFG0_DEV_TYPE_MASK = CFG0_DEV_TYPE_RC"
  unfolding CFG0_DEV_TYPE_MASK_def CFG0_DEV_TYPE_RC_def
  by (simp add: bit.conj_disj_distrib2 and.assoc)

lemma ltssm_kept: "bit (v OR (CFG5_LTSSM_EN OR CFG5_APP_INIT_RST)) 1"
  by (simp add: bit_or_iff CFG5_LTSSM_EN_def bit_BIT)

text \<open>
  Claim C4.  If the link is up when \<open>start_link\<close> is called, the register writes
  of the whole call are: one write to config register 0 whose device-type field is root
  complex (0x4) and, only if the link is seen down at the second query, one write to
  config register 5 that has the LTSSM-enable bit set.  No write to config register 5
  has the LTSSM-enable bit clear, and if the link is up throughout the call config
  register 5 is not written at all.
\<close>

theorem redundant_start_C4:
  fixes k pcie h
  defines "sts0 \<equiv> PCIEx_STSx (port_idx pcie) 0"
  defines "cfg0 \<equiv> PCIEx_CFGx (port_idx pcie) 0"
  defines "cfg5 \<equiv> PCIEx_CFGx (port_idx pcie) 5"
  assumes up: "bit (ret_int k h (Regmap_read sts0)) 16"
  shows "\<exists>v0 ws. regmap_writes (snd (ls1024a_pcie_start_link k pcie h))
           = regmap_writes h
             @ Regmap_write cfg0 ((v0 AND NOT CFG0_DEV_TYPE_MASK) OR CFG0_DEV_TYPE_RC) # ws
       \<and> ((v0 AND NOT CFG0_DEV_TYPE_MASK) OR CFG0_DEV_TYPE_RC) AND CFG0_DEV_TYPE_MASK
           = CFG0_DEV_TYPE_RC
       \<and> (ws = [] \<or> (\<exists>v5. ws = [Regmap_write cfg5 (v5 OR (CFG5_LTSSM_EN OR CFG5_APP_INIT_RST))]))
       \<and> (\<forall>val. Regmap_write cfg5 val \<in> set ws \<longrightarrow> bit val 1)
       \<and> ((\<forall>evs. bit (ret_int k (h @ evs) (Regmap_read sts0)) 16) \<longrightarrow> ws = [])"
proof -
  let ?cfg0 = "PCIEx_CFGx (port_idx pcie) 0"
  let ?cfg5 = "PCIEx_CFGx (port_idx pcie) 5"
  let ?sts0 = "PCIEx_STSx (port_idx pcie) 0"
  let ?log = "\<lambda>r::u32. if r \<noteq> 0
     then [(Dev_err ''Link not up after reconfiguration'', RVoid)] else []"
  note defs = ls1024a_pcie_start_link_def ls1024a_pcie_establish_link_def
    regmap_read_def regmap_write_def call_int_def call_void_def dev_err_def Let_def
  \<comment> \<open>first query: the link is up, the LTSSM is left alone\<close>
  obtain n1 where q1: "dw_pcie_link_up k pcie h = (1, h @ n1)" and w1: "regmap_writes n1 = []"
    using link_up_query [of k pcie h] up unfolding sts0_def
    by (elim exE conjE) (rule that, simp_all)
  define h1 where "h1 = h @ n1"
  have l1: "dw_pcie_link_up k pcie h = (1, h1)" by (simp add: q1 h1_def)
  \<comment> \<open>the device type is rewritten\<close>
  let ?v0 = "ret_int k h1 (Regmap_read ?cfg0)"
  let ?val0 = "(?v0 AND NOT CFG0_DEV_TYPE_MASK) OR CFG0_DEV_TYPE_RC"
  let ?h2 = "h1 @ [(Regmap_read ?cfg0, RInt ?v0), (Regmap_write ?cfg0 ?val0, RVoid)]"
  have w2: "regmap_writes ?h2 = regmap_writes h @ [Regmap_write ?cfg0 ?val0]"
    by (simp add: h1_def regmap_writes_simps w1)
  \<comment> \<open>second query\<close>
  let ?up2 = "bit (ret_int k ?h2 (Regmap_read ?sts0)) 16"
  obtain n3 where q2: "dw_pcie_link_up k pcie ?h2 = ((if ?up2 then 1 else 0), ?h2 @ n3)"
    and w3: "regmap_writes n3 = []"
    using link_up_query [of k pcie ?h2] by (elim exE conjE) (rule that)
  define h3 where "h3 = ?h2 @ n3"
  have w3': "regmap_writes h3 = regmap_writes h @ [Regmap_write ?cfg0 ?val0]"
    unfolding h3_def regmap_writes_simps(1) [of ?h2 n3] w2 w3 by simp
  have l2: "dw_pcie_link_up k pcie ?h2 = ((if ?up2 then 1 else 0), h3)"
    unfolding h3_def by (rule q2)
  have writes: "\<exists>ws. regmap_writes (snd (ls1024a_pcie_start_link k pcie h))
        = regmap_writes h @ Regmap_write ?cfg0 ?val0 # ws
      \<and> (ws = [] \<or> (\<exists>v5. ws = [Regmap_write ?cfg5 (v5 OR (CFG5_LTSSM_EN OR CFG5_APP_INIT_RST))]))
      \<and> (?up2 \<longrightarrow> ws = [])"
  proof (cases ?up2)
    case True
    obtain r n5 where q3: "dw_pcie_wait_for_link k pcie h3 = (r, h3 @ n5)"
      and w5: "regmap_writes n5 = []"
      using wait_for_link_no_write [of k pcie h3] by (elim exE conjE) (rule that)
    have l2': "dw_pcie_link_up k pcie ?h2 = (1, h3)"
      using l2 True by simp
    have "snd (ls1024a_pcie_start_link k pcie h) = h3 @ n5 @ ?log r"
      by (simp add: defs l1 l2' q3)
    then have "regmap_writes (snd (ls1024a_pcie_start_link k pcie h))
        = regmap_writes h @ Regmap_write ?cfg0 ?val0 # []"
      by (simp add: regmap_writes_simps w3' w5)
    then show ?thesis by blast
  next
    case False
    let ?v5 = "ret_int k h3 (Regmap_read ?cfg5)"
    let ?val5 = "?v5 OR (CFG5_LTSSM_EN OR CFG5_APP_INIT_RST)"
    let ?h4 = "h3 @ [(Regmap_read ?cfg5, RInt ?v5), (Regmap_write ?cfg5 ?val5, RVoid)]"
    obtain r n5 where q3: "dw_pcie_wait_for_link k pcie ?h4 = (r, ?h4 @ n5)"
      and w5: "regmap_writes n5 = []"
      using wait_for_link_no_write [of k pcie ?h4] by (elim exE conjE) (rule that)
    have l2': "dw_pcie_link_up k pcie ?h2 = (0, h3)"
      using l2 False by simp
    have "snd (ls1024a_pcie_start_link k pcie h) = ?h4 @ n5 @ ?log r"
      by (simp add: defs l1 l2' q3)
    then have "regmap_writes (snd (ls1024a_pcie_start_link k pcie h))
        = regmap_writes h @ Regmap_write ?cfg0 ?val0 # [Regmap_write ?cfg5 ?val5]"
      by (simp add: regmap_writes_simps w3' w5)
    then show ?thesis using False by blast
  qed
  then obtain ws where
    writes: "regmap_writes (snd (ls1024a_pcie_start_link k pcie h))
        = regmap_writes h @ Regmap_write ?cfg0 ?val0 # ws"
    and shape: "ws = []
      \<or> (\<exists>v5. ws = [Regmap_write ?cfg5 (v5 OR (CFG5_LTSSM_EN OR CFG5_APP_INIT_RST))])"
    and quiet: "?up2 \<longrightarrow> ws = []"
    by (elim exE conjE)
  have throughout: "ws = []" if "\<forall>evs. bit (ret_int k (h @ evs) (Regmap_read ?sts0)) 16"
  proof -
    have "?h2 = h @ (n1 @ [(Regmap_read ?cfg0, RInt ?v0), (Regmap_write ?cfg0 ?val0, RVoid)])"
      by (simp add: h1_def)
    then have ?up2 using that by metis
    then show ?thesis using quiet by simp
  qed
  have kept: "\<forall>val. Regmap_write ?cfg5 val \<in> set ws \<longrightarrow> bit val 1"
    using shape ltssm_kept by auto
  have field: "?val0 AND CFG0_DEV_TYPE_MASK = CFG0_DEV_TYPE_RC"
    by (rule dev_type_field)
  show ?thesis
    unfolding sts0_def cfg0_def cfg5_def
    using writes field shape kept throughout
    by (intro exI [of _ ?v0] exI [of _ ws] conjI impI) assumption+
qed

theorem redundant_start_C4_witness:
  "bit (ret_int (quiet_kernel 0x10000) [] (Regmap_read (PCIEx_STSx (port_idx port0) 0))) 16
   \<and> (\<exists>v0. regmap_writes (snd (ls1024a_pcie_start_link (quiet_kernel 0x10000) port0 []))
         = [Regmap_write (PCIEx_CFGx (port_idx port0) 0)
              ((v0 AND NOT CFG0_DEV_TYPE_MASK) OR CFG0_DEV_TYPE_RC)])"
proof -
  have hyp: "bit (ret_int (quiet_kernel 0x10000) h (Regmap_read reg)) 16" for h reg
    by (simp add: quiet_kernel_def bit_iff_odd)
  show ?thesis
    using redundant_start_C4 [of "quiet_kernel 0x10000" "[]" port0, OF hyp] hyp
    by (auto simp: regmap_writes_simps)
qed

section \<open>Probe and the PHY\<close>



























end
